theory Spec2Isabelle
  imports Main "HOL-Library.Word" "HOL-Library.AList"
begin

section \<open>Python values and exceptions\<close>

text \<open>
  The handler of \<^verbatim>\<open>main.py\<close> moves Python values between three libraries: the dictionary
  that \<^verbatim>\<open>MessageToDict\<close> returns, the value that \<^verbatim>\<open>json.loads\<close> returns, and the dictionary
  handed to the document store. One datatype covers them. A \<^verbatim>\<open>float\<close> is its IEEE-754 bit
  pattern; a \<^verbatim>\<open>dict\<close> with string keys is an association list read with \<open>map_of\<close>.
\<close>

datatype pyval =
    PNone
  | PBool bool
  | PInt int
  | PFloat "64 word"
  | PStr string
  | PList "pyval list"
  | PDict "(string \<times> pyval) list"

text \<open>
  Every \<^verbatim>\<open>raise\<close> that can reach the handler is a value. \<open>GoogleAPICallError\<close> stands for
  the class \<^verbatim>\<open>google.api_core.exceptions.GoogleAPICallError\<close> and its subclasses, the only
  class named in an \<^verbatim>\<open>except\<close> clause of the file; \<open>OtherException\<close> carries the class name
  of any exception of the external clients that is none of the others.
\<close>

datatype exn =
    AttributeError
  | TypeError
  | ValueError
  | KeyError string
  | IndexError
  | JSONDecodeError
  | GoogleAPICallError string
  | OtherException string

fun is_GoogleAPICallError :: "exn \<Rightarrow> bool" where
  "is_GoogleAPICallError (GoogleAPICallError m) = True"
| "is_GoogleAPICallError e = False"

text \<open>
  \<^verbatim>\<open>d.get(key, default)\<close>: a dictionary answers with the stored value or the default; any
  other value has no attribute \<^verbatim>\<open>get\<close>.
\<close>

fun py_get :: "pyval \<Rightarrow> string \<Rightarrow> pyval \<Rightarrow> exn + pyval" where
  "py_get (PDict kvs) key dflt = Inr (case map_of kvs key of None \<Rightarrow> dflt | Some v \<Rightarrow> v)"
| "py_get v key dflt = Inl AttributeError"

text \<open>Truth value testing, as \<^verbatim>\<open>all\<close> and \<^verbatim>\<open>not\<close> apply it.\<close>

fun truthy :: "pyval \<Rightarrow> bool" where
  "truthy PNone = False"
| "truthy (PBool b) = b"
| "truthy (PInt i) = (i \<noteq> 0)"
| "truthy (PFloat w) = (w \<noteq> 0 \<and> w \<noteq> 0x8000000000000000)"
| "truthy (PStr s) = (s \<noteq> [])"
| "truthy (PList xs) = (xs \<noteq> [])"
| "truthy (PDict kvs) = (kvs \<noteq> [])"

definition py_all :: "pyval list \<Rightarrow> bool" where
  "py_all xs = list_all truthy xs"

section \<open>Module constants and configuration\<close>

definition MODEL_ID :: string where
  "MODEL_ID = ''gemini-2.0-flash-001''"

text \<open>
  Lines 62 to 68. \<^verbatim>\<open>os.environ.get("LOCATION", "")\<close> reads the process environment, a map
  from names to strings, with the empty string as the default; the empty string is then
  replaced by the default region.
\<close>

definition LOCATION :: "(string \<rightharpoonup> string) \<Rightarrow> string" where
  "LOCATION environ =
     (let loc = (case environ ''LOCATION'' of None \<Rightarrow> '''' | Some v \<Rightarrow> v)
      in if loc = '''' then ''europe-west1'' else loc)"

record genai_client =
  vertexai :: bool
  location :: string

definition client :: "(string \<rightharpoonup> string) \<Rightarrow> genai_client" where
  "client environ = \<lparr>vertexai = True, location = LOCATION environ\<rparr>"

definition response_schema :: pyval where
  "response_schema =
     PDict [
       (''type'', PStr ''OBJECT''),
       (''properties'', PDict [
          (''summary'', PDict [(''type'', PStr ''STRING'')]),
          (''location'', PDict [(''type'', PStr ''STRING'')]),
          (''description'', PDict [(''type'', PStr ''STRING'')]),
          (''start'', PDict [(''type'', PStr ''STRING'')]),
          (''end'', PDict [(''type'', PStr ''STRING'')])]),
       (''required'', PList [PStr ''summary'', PStr ''description'', PStr ''start'', PStr ''end''])]"

section \<open>The trigger payload\<close>

text \<open>
  The event library's \<^verbatim>\<open>DocumentEventData\<close> message holds two document snapshots and an
  update mask. A document has a resource name, a map from field names to typed values and
  two timestamps. A typed value sets at most one member of a \<^verbatim>\<open>oneof\<close>; the handler only
  ever asks for the member \<^verbatim>\<open>stringValue\<close>, so the model keeps the string member as it
  is and, for each of the other ten members, its kind and the Python value that
  \<^verbatim>\<open>MessageToDict\<close> renders it as.
\<close>

datatype value_kind =
    NullKind | BooleanKind | IntegerKind | DoubleKind | TimestampKind
  | BytesKind | ReferenceKind | GeoPointKind | ArrayKind | MapKind

fun json_name :: "value_kind \<Rightarrow> string" where
  "json_name NullKind = ''nullValue''"
| "json_name BooleanKind = ''booleanValue''"
| "json_name IntegerKind = ''integerValue''"
| "json_name DoubleKind = ''doubleValue''"
| "json_name TimestampKind = ''timestampValue''"
| "json_name BytesKind = ''bytesValue''"
| "json_name ReferenceKind = ''referenceValue''"
| "json_name GeoPointKind = ''geoPointValue''"
| "json_name ArrayKind = ''arrayValue''"
| "json_name MapKind = ''mapValue''"

datatype fvalue =
    StringValue string
  | TypedValue value_kind pyval
  | NoValue

record document =
  doc_name :: string
  doc_fields :: "(string \<times> fvalue) list"
  create_time :: "string option"
  update_time :: "string option"

record document_event_data =
  doc_value :: document
  old_value :: document
  update_mask :: "string list"

definition empty_document :: document where
  "empty_document = \<lparr>doc_name = '''', doc_fields = [], create_time = None, update_time = None\<rparr>"

text \<open>\<^verbatim>\<open>firestore.DocumentEventData()\<close>: the message with every field at its default.\<close>

definition DocumentEventData :: document_event_data where
  "DocumentEventData = \<lparr>doc_value = empty_document, old_value = empty_document, update_mask = []\<rparr>"

text \<open>
  A document reaches Python in one of two forms: the proto-plus wrapper that the event
  library's classes hand out, which is what \<^verbatim>\<open>firestore_payload.value\<close> is, and the
  protobuf message underneath it (the wrapper's \<^verbatim>\<open>_pb\<close>).
\<close>

datatype message = ProtoPlus document | Protobuf document

text \<open>
  The dictionary of a document: one entry per field that is set, under its JSON name, in
  field order; a field at its default (an empty name, an empty map, an unset timestamp) gets
  no entry. A typed value becomes a dictionary with the one entry of the member that is set.
\<close>

fun value_to_dict :: "fvalue \<Rightarrow> pyval" where
  "value_to_dict (StringValue s) = PDict [(''stringValue'', PStr s)]"
| "value_to_dict (TypedValue k v) = PDict [(json_name k, v)]"
| "value_to_dict NoValue = PDict []"

definition document_to_dict :: "document \<Rightarrow> pyval" where
  "document_to_dict d =
     PDict (
       (if doc_name d = [] then [] else [(''name'', PStr (doc_name d))]) @
       (if doc_fields d = [] then []
        else [(''fields'', PDict (map (\<lambda>(k, v). (k, value_to_dict v)) (doc_fields d)))]) @
       (case create_time d of None \<Rightarrow> [] | Some t \<Rightarrow> [(''createTime'', PStr t)]) @
       (case update_time d of None \<Rightarrow> [] | Some t \<Rightarrow> [(''updateTime'', PStr t)]))"

text \<open>
  \<^verbatim>\<open>google.protobuf.json_format.MessageToDict\<close> (imported on line 56) starts by reading
  \<^verbatim>\<open>message.DESCRIPTOR\<close>. A protobuf message has it, and the call returns the dictionary
  of the message. A proto-plus wrapper answers attribute lookups from the names of its
  fields only, \<^verbatim>\<open>DESCRIPTOR\<close> is none of them, and the call raises \<^verbatim>\<open>AttributeError\<close>
  whatever the document holds.
\<close>

fun MessageToDict :: "message \<Rightarrow> exn + pyval" where
  "MessageToDict (Protobuf d) = Inr (document_to_dict d)"
| "MessageToDict (ProtoPlus d) = Inl AttributeError"

text \<open>
  Lines 132 to 134: the three chained lookups, in source order. Each chain is
  \<^verbatim>\<open>document_data.get("fields", {}).get(NAME, {}).get("stringValue")\<close>.
\<close>

definition get_string_field :: "pyval \<Rightarrow> string \<Rightarrow> exn + pyval" where
  "get_string_field document_data field_name =
     (case py_get document_data ''fields'' (PDict []) of
        Inl e \<Rightarrow> Inl e
      | Inr field_map \<Rightarrow>
          (case py_get field_map field_name (PDict []) of
             Inl e \<Rightarrow> Inl e
           | Inr wrapper \<Rightarrow> py_get wrapper ''stringValue'' PNone))"

definition extract_fields :: "pyval \<Rightarrow> exn + (pyval \<times> pyval \<times> pyval)" where
  "extract_fields document_data =
     (case get_string_field document_data ''image'' of
        Inl e \<Rightarrow> Inl e
      | Inr gcs_url \<Rightarrow>
          (case get_string_field document_data ''type'' of
             Inl e \<Rightarrow> Inl e
           | Inr mime_type \<Rightarrow>
               (case get_string_field document_data ''ID'' of
                  Inl e \<Rightarrow> Inl e
                | Inr document_id \<Rightarrow> Inr (gcs_url, mime_type, document_id))))"

section \<open>The prompt\<close>

text \<open>Lines 87 to 113, character for character (doubled braces included).\<close>

definition PROMPT_TEMPLATE :: string where
  \<open>PROMPT_TEMPLATE =
     '' The current date and time is: {current_datetime}.\<newline>'' @
     ''\<newline>'' @
     ''Analyze the provided screenshot and extract the following information: \<newline>'' @
     ''\<newline>'' @
     ''summary: A brief summary of the event.\<newline>'' @
     ''location: The location of the event.\<newline>'' @
     ''start time: The start date and time of the event in YYYY-MM-DDTHH:MM:SS format. Assume the event starts in the future.\<newline>'' @
     ''end time: The end date and time of the event in YYYY-MM-DDTHH:MM:SS format. Calculate this using the duration, if no duration is mentioned, assume the event is an hour long.\<newline>'' @
     ''Ensure the start and end objects include the correct timeZone based on the information in the screenshot.\<newline>'' @
     ''duration: The duration of the event in minutes. This could be also written as mins.Use this to calculate the end time if provided.\<newline>'' @
     ''Ensure the start and end objects include the correct timeZone based on the information in the screenshot.\<newline>'' @
     ''description: A short description of the event.\<newline>'' @
     ''\<newline>'' @
     ''The response should have the following schema:\<newline>'' @
     ''\<newline>'' @
     ''{{\<newline>'' @
     ''    "type": "OBJECT",\<newline>'' @
     ''    "properties": {{\<newline>'' @
     ''        "summary": {{"type": "STRING"}},\<newline>'' @
     ''        "location": {{"type": "STRING"}},\<newline>'' @
     ''        "description": {{"type": "STRING"}},\<newline>'' @
     ''        "start": {{"type": "STRING"}},\<newline>'' @
     ''        "end": {{"type": "STRING"}}\<newline>'' @
     ''    }}\<newline>'' @
     ''}}\<newline>'' @
     ''\<newline>''\<close>

text \<open>
  \<^verbatim>\<open>str.format\<close> with keyword arguments: the template is cut into literal text and
  replacement fields, then each field is replaced by the argument of that name. \<^verbatim>\<open>{{\<close> and
  \<^verbatim>\<open>}}\<close> stand for one brace; a brace that is alone, or a field that is not closed, raises
  \<^verbatim>\<open>ValueError\<close>; a field with no name, or with a name made of digits, asks for a
  positional argument, and the handler passes none (\<^verbatim>\<open>IndexError\<close>); any other name that
  is no keyword raises \<^verbatim>\<open>KeyError\<close>. Conversions
  and format specifications (\<^verbatim>\<open>!r\<close>, \<^verbatim>\<open>:>10\<close>) are not modelled: the template has none, and
  a field text that holds one is looked up as it stands.
\<close>

datatype piece = Text string | Field string

definition is_digit :: "char \<Rightarrow> bool" where
  "is_digit c = (48 \<le> (of_char c :: nat) \<and> (of_char c :: nat) \<le> 57)"

fun cons_text :: "char \<Rightarrow> piece list \<Rightarrow> piece list" where
  "cons_text c (Text s # ps) = Text (c # s) # ps"
| "cons_text c ps = Text [c] # ps"

fun parse_format :: "string option \<Rightarrow> string \<Rightarrow> exn + piece list" where
  "parse_format None [] = Inr []"
| "parse_format (Some name) [] = Inl ValueError"
| "parse_format None (c # cs) =
     (if c = CHR ''{'' then
        (case cs of
           [] \<Rightarrow> Inl ValueError
         | d # ds \<Rightarrow>
             if d = CHR ''{'' then map_sum id (cons_text CHR ''{'') (parse_format None ds)
             else parse_format (Some []) cs)
      else if c = CHR ''}'' then
        (case cs of
           [] \<Rightarrow> Inl ValueError
         | d # ds \<Rightarrow>
             if d = CHR ''}'' then map_sum id (cons_text CHR ''}'') (parse_format None ds)
             else Inl ValueError)
      else map_sum id (cons_text c) (parse_format None cs))"
| "parse_format (Some name) (c # cs) =
     (if c = CHR ''}'' then map_sum id ((#) (Field name)) (parse_format None cs)
      else if c = CHR ''{'' then Inl ValueError
      else parse_format (Some (name @ [c])) cs)"

fun render :: "(string \<times> string) list \<Rightarrow> piece list \<Rightarrow> exn + string" where
  "render kwargs [] = Inr []"
| "render kwargs (Text s # ps) = map_sum id ((@) s) (render kwargs ps)"
| "render kwargs (Field name # ps) =
     (if list_all is_digit name then Inl IndexError
      else case map_of kwargs name of
             None \<Rightarrow> Inl (KeyError name)
           | Some v \<Rightarrow> map_sum id ((@) v) (render kwargs ps))"

definition format_py :: "string \<Rightarrow> (string \<times> string) list \<Rightarrow> exn + string" where
  "format_py template kwargs =
     (case parse_format None template of Inl e \<Rightarrow> Inl e | Inr ps \<Rightarrow> render kwargs ps)"

section \<open>The wall clock\<close>

text \<open>
  A naive \<^verbatim>\<open>datetime\<close> object, and \<^verbatim>\<open>isoformat()\<close> with its default separator and time
  specification: \<^verbatim>\<open>%04d-%02d-%02dT%02d:%02d:%02d\<close>, followed by \<^verbatim>\<open>.%06d\<close> when the
  microsecond is not zero. There is no offset, since \<^verbatim>\<open>datetime.now()\<close> has no time zone.
\<close>

record datetime =
  year :: nat
  month :: nat
  day :: nat
  hour :: nat
  minute :: nat
  second :: nat
  microsecond :: nat

definition digit_char :: "nat \<Rightarrow> char" where
  "digit_char n = char_of (48 + n)"

fun str_nat :: "nat \<Rightarrow> string" where
  "str_nat n = (if n < 10 then [digit_char n] else str_nat (n div 10) @ [digit_char (n mod 10)])"

declare str_nat.simps [simp del]

definition zero_pad :: "nat \<Rightarrow> nat \<Rightarrow> string" where
  "zero_pad width n = replicate (width - length (str_nat n)) CHR ''0'' @ str_nat n"

definition isoformat :: "datetime \<Rightarrow> string" where
  "isoformat d =
     zero_pad 4 (year d) @ ''-'' @ zero_pad 2 (month d) @ ''-'' @ zero_pad 2 (day d) @ ''T'' @
     zero_pad 2 (hour d) @ '':'' @ zero_pad 2 (minute d) @ '':'' @ zero_pad 2 (second d) @
     (if microsecond d = 0 then [] else ''.'' @ zero_pad 6 (microsecond d))"

text \<open>
  What Python guarantees of every \<^verbatim>\<open>datetime\<close> object (it guarantees more of the day: no
  day past the end of its month).
\<close>

definition datetime_ok :: "datetime \<Rightarrow> bool" where
  "datetime_ok d =
     (1 \<le> year d \<and> year d \<le> 9999 \<and> 1 \<le> month d \<and> month d \<le> 12 \<and>
      1 \<le> day d \<and> day d \<le> 31 \<and> hour d < 24 \<and> minute d < 60 \<and> second d < 60 \<and>
      microsecond d < 1000000)"

section \<open>The world outside the handler\<close>

text \<open>
  What the handler receives: a CloudEvent with its attributes and its payload bytes. Only
  the attribute \<^verbatim>\<open>source\<close> is ever read.
\<close>

record cloud_event =
  ce_id :: string
  ce_source :: string
  ce_type :: string
  ce_data :: "8 word list"

text \<open>One constructor per \<^verbatim>\<open>print\<close> of the handler, holding what is interpolated.\<close>

datatype log_line =
    LogTriggered string
  | LogNewValue
  | LogDocument document
  | LogMissingFields pyval
  | LogRawResponse "string option"
  | LogEventData pyval
  | LogWritten pyval
  | LogWriteError exn

text \<open>The arguments of one \<^verbatim>\<open>client.models.generate_content\<close> call.\<close>

record request =
  req_client :: genai_client
  req_model :: string
  req_file_uri :: pyval
  req_mime_type :: pyval
  req_prompt :: string
  req_response_mime_type :: string
  req_response_schema :: pyval

text \<open>
  One \<^verbatim>\<open>DocumentReference.set\<close> call: the path of the document (collection, document,
  and further pairs for a document of a subcollection) and the two arguments.
\<close>

record write_call =
  wr_path :: "string list"
  wr_data :: "(string \<times> pyval) list"
  wr_merge :: bool

text \<open>
  Everything the handler can change: the lines printed, the calls made to the AI service,
  the calls made to the document store, and the documents the store holds (document path
  to the document's fields).
\<close>

record world =
  stdout :: "log_line list"
  ai_calls :: "request list"
  store_calls :: "write_call list"
  store :: "string list \<rightharpoonup> (string \<times> pyval) list"

text \<open>
  Everything the handler reads and does not own: the process environment at import time,
  the clock, the answer of the AI service to a request (an exception, or the \<^verbatim>\<open>text\<close> of
  the response, which the client library types as optional), the JSON decoder (\<open>None\<close> for
  a text that is not JSON), and the exception, if any, with which the document store
  answers a write.
\<close>

record env =
  environ :: "string \<rightharpoonup> string"
  now :: datetime
  generate_content :: "request \<Rightarrow> exn + string option"
  json_decode :: "string \<rightharpoonup> pyval"
  store_fault :: "write_call \<rightharpoonup> exn"

definition print :: "log_line \<Rightarrow> world \<Rightarrow> world" where
  "print l w = w\<lparr>stdout := stdout w @ [l]\<rparr>"

text \<open>
  \<^verbatim>\<open>json.loads(response.text)\<close>: \<^verbatim>\<open>TypeError\<close> for \<^verbatim>\<open>None\<close>, \<^verbatim>\<open>JSONDecodeError\<close> for a text
  that is not JSON.
\<close>

definition json_loads :: "env \<Rightarrow> string option \<Rightarrow> exn + pyval" where
  "json_loads env text =
     (case text of
        None \<Rightarrow> Inl TypeError
      | Some s \<Rightarrow> (case json_decode env s of None \<Rightarrow> Inl JSONDecodeError | Some v \<Rightarrow> Inr v))"

subsection \<open>The document store\<close>

text \<open>
  \<^verbatim>\<open>set(data, merge=True)\<close> writes the leaves of \<open>data\<close> and nothing else: a field of the
  stored document that \<open>data\<close> does not name is kept, a nested map is merged entry by
  entry, and any other value (an empty map included) replaces what was stored under its
  name. \<^verbatim>\<open>set(data)\<close> without \<^verbatim>\<open>merge\<close> replaces the whole document.
\<close>

fun merge_value :: "pyval option \<Rightarrow> pyval \<Rightarrow> pyval"
  and merge_fields :: "(string \<times> pyval) list \<Rightarrow> (string \<times> pyval) list \<Rightarrow> (string \<times> pyval) list"
where
  "merge_value old (PDict []) = PDict []"
| "merge_value old (PDict (kv # kvs)) =
     PDict (merge_fields (case old of Some (PDict okvs) \<Rightarrow> okvs | _ \<Rightarrow> []) (kv # kvs))"
| "merge_value old PNone = PNone"
| "merge_value old (PBool b) = PBool b"
| "merge_value old (PInt i) = PInt i"
| "merge_value old (PFloat x) = PFloat x"
| "merge_value old (PStr s) = PStr s"
| "merge_value old (PList xs) = PList xs"
| "merge_fields old [] = old"
| "merge_fields old ((k, v) # kvs) =
     merge_fields (AList.update k (merge_value (map_of old k) v) old) kvs"

text \<open>
  \<^verbatim>\<open>db.collection(c).document(id)\<close>: the client joins the collection and the id with a
  slash and cuts the result at every slash. A document path has an even number of parts, and
  the client raises \<^verbatim>\<open>ValueError\<close> for an odd one (the id \<^verbatim>\<open>a/b\<close>); an id with two slashes
  names a document of a subcollection. An id that is not a string cannot be joined
  (\<^verbatim>\<open>TypeError\<close>).
\<close>

fun split_slash :: "string \<Rightarrow> string list" where
  "split_slash [] = [[]]"
| "split_slash (c # cs) =
     (if c = CHR ''/'' then [] # split_slash cs
      else case split_slash cs of [] \<Rightarrow> [[c]] | p # ps \<Rightarrow> (c # p) # ps)"

fun document_ref :: "string \<Rightarrow> pyval \<Rightarrow> exn + string list" where
  "document_ref c (PStr s) =
     (let path = c # split_slash s in if even (length path) then Inr path else Inl ValueError)"
| "document_ref c v = Inl TypeError"

text \<open>
  \<^verbatim>\<open>doc_ref.set(data, merge=m)\<close>: the call is made; the store either answers with an
  exception or applies the write. The model takes a write that was answered with an
  exception as not applied.
\<close>

definition document_set ::
  "env \<Rightarrow> string list \<Rightarrow> (string \<times> pyval) list \<Rightarrow> bool \<Rightarrow> world \<Rightarrow> world \<times> (exn + unit)" where
  "document_set env doc_ref data m w =
     (let call = \<lparr>wr_path = doc_ref, wr_data = data, wr_merge = m\<rparr>;
          w1 = w\<lparr>store_calls := store_calls w @ [call]\<rparr>
      in case store_fault env call of
           Some e \<Rightarrow> (w1, Inl e)
         | None \<Rightarrow>
             (w1\<lparr>store := (store w1)(doc_ref \<mapsto>
                 (if m then merge_fields (case store w1 doc_ref of None \<Rightarrow> [] | Some old \<Rightarrow> old) data
                  else data))\<rparr>, Inr ()))"

section \<open>The handler\<close>

text \<open>
  Lines 161 to 171. The dictionary written is built first; the \<^verbatim>\<open>try\<close> block makes the
  reference, writes with \<^verbatim>\<open>merge=True\<close> and prints; the \<^verbatim>\<open>except\<close> clause catches
  \<^verbatim>\<open>GoogleAPICallError\<close> only, prints it and returns.
\<close>

definition firestore_document :: "pyval \<Rightarrow> (string \<times> pyval) list" where
  "firestore_document event_data = [(''processed'', PBool True), (''event'', event_data)]"

definition try_block :: "env \<Rightarrow> pyval \<Rightarrow> pyval \<Rightarrow> world \<Rightarrow> world \<times> (exn + unit)" where
  "try_block env document_id event_data w =
     (case document_ref ''state'' document_id of
        Inl e \<Rightarrow> (w, Inl e)
      | Inr doc_ref \<Rightarrow>
          (case document_set env doc_ref (firestore_document event_data) True w of
             (w1, Inl e) \<Rightarrow> (w1, Inl e)
           | (w1, Inr u) \<Rightarrow> (print (LogWritten document_id) w1, Inr ())))"

definition write_result :: "env \<Rightarrow> pyval \<Rightarrow> pyval \<Rightarrow> world \<Rightarrow> world \<times> (exn + unit)" where
  "write_result env document_id event_data w =
     (case try_block env document_id event_data w of
        (w1, Inl e) \<Rightarrow>
          if is_GoogleAPICallError e then (print (LogWriteError e) w1, Inr ())
          else (w1, Inl e)
      | (w1, Inr u) \<Rightarrow> (w1, Inr ()))"

text \<open>
  Lines 140 to 159: the prompt is formatted with the clock's reading, the request is sent,
  the response text is printed and decoded, the decoded value is printed. An exception of
  any of these steps leaves the handler at once.
\<close>

definition make_request :: "env \<Rightarrow> pyval \<Rightarrow> pyval \<Rightarrow> string \<Rightarrow> request" where
  "make_request env gcs_url mime_type prompt =
     \<lparr>req_client = client (environ env), req_model = MODEL_ID,
      req_file_uri = gcs_url, req_mime_type = mime_type, req_prompt = prompt,
      req_response_mime_type = ''application/json'',
      req_response_schema = response_schema\<rparr>"

definition request_extraction :: "env \<Rightarrow> pyval \<Rightarrow> pyval \<Rightarrow> world \<Rightarrow> world \<times> (exn + pyval)" where
  "request_extraction env gcs_url mime_type w =
     (let current_datetime = isoformat (now env)
      in case format_py PROMPT_TEMPLATE [(''current_datetime'', current_datetime)] of
           Inl e \<Rightarrow> (w, Inl e)
         | Inr prompt \<Rightarrow>
             (let req = make_request env gcs_url mime_type prompt;
                  w1 = w\<lparr>ai_calls := ai_calls w @ [req]\<rparr>
              in case generate_content env req of
                   Inl e \<Rightarrow> (w1, Inl e)
                 | Inr response_text \<Rightarrow>
                     (let w2 = print (LogRawResponse response_text) w1
                      in case json_loads env response_text of
                           Inl e \<Rightarrow> (w2, Inl e)
                         | Inr event_data \<Rightarrow> (print (LogEventData event_data) w2, Inr event_data))))"

text \<open>
  Lines 132 to 171, for the dictionary that line 130 binds to \<^verbatim>\<open>document_data\<close>: the three
  lookups, the check of line 136 and the two later stages.
\<close>

definition process_document :: "env \<Rightarrow> pyval \<Rightarrow> world \<Rightarrow> world \<times> (exn + unit)" where
  "process_document env document_data w =
     (case extract_fields document_data of
        Inl e \<Rightarrow> (w, Inl e)
      | Inr (gcs_url, mime_type, document_id) \<Rightarrow>
          if \<not> py_all [gcs_url, mime_type, document_id]
          then (print (LogMissingFields document_data) w, Inr ())
          else
            (case request_extraction env gcs_url mime_type w of
               (w4, Inl e) \<Rightarrow> (w4, Inl e)
             | (w4, Inr event_data) \<Rightarrow> write_result env document_id event_data w4))"

text \<open>
  The handler, lines 123 to 171. Line 123 binds \<^verbatim>\<open>firestore_payload\<close> to a fresh message
  and no line parses the event's bytes into it; lines 125 to 128 print; line 130 hands the
  proto-plus wrapper \<^verbatim>\<open>firestore_payload.value\<close> to \<^verbatim>\<open>MessageToDict\<close>, and an exception of
  that call leaves the handler.
\<close>

definition image_processor :: "env \<Rightarrow> cloud_event \<Rightarrow> world \<Rightarrow> world \<times> (exn + unit)" where
  "image_processor env cloud_event w =
     (let firestore_payload = DocumentEventData;
          w1 = print (LogTriggered (ce_source cloud_event)) w;
          w2 = print LogNewValue w1;
          w3 = print (LogDocument (doc_value firestore_payload)) w2
      in case MessageToDict (ProtoPlus (doc_value firestore_payload)) of
           Inl e \<Rightarrow> (w3, Inl e)
         | Inr document_data \<Rightarrow> process_document env document_data w3)"

section \<open>Vocabulary of the statements\<close>

subsection \<open>The rendered prompt\<close>

text \<open>
  The text of the template after its one replacement field, with every doubled brace
  written once: what \<^verbatim>\<open>format\<close> leaves after the timestamp.
\<close>

definition prompt_tail :: string where
  \<open>prompt_tail =
     ''.\<newline>'' @
     ''\<newline>'' @
     ''Analyze the provided screenshot and extract the following information: \<newline>'' @
     ''\<newline>'' @
     ''summary: A brief summary of the event.\<newline>'' @
     ''location: The location of the event.\<newline>'' @
     ''start time: The start date and time of the event in YYYY-MM-DDTHH:MM:SS format. Assume the event starts in the future.\<newline>'' @
     ''end time: The end date and time of the event in YYYY-MM-DDTHH:MM:SS format. Calculate this using the duration, if no duration is mentioned, assume the event is an hour long.\<newline>'' @
     ''Ensure the start and end objects include the correct timeZone based on the information in the screenshot.\<newline>'' @
     ''duration: The duration of the event in minutes. This could be also written as mins.Use this to calculate the end time if provided.\<newline>'' @
     ''Ensure the start and end objects include the correct timeZone based on the information in the screenshot.\<newline>'' @
     ''description: A short description of the event.\<newline>'' @
     ''\<newline>'' @
     ''The response should have the following schema:\<newline>'' @
     ''\<newline>'' @
     ''{\<newline>'' @
     ''    "type": "OBJECT",\<newline>'' @
     ''    "properties": {\<newline>'' @
     ''        "summary": {"type": "STRING"},\<newline>'' @
     ''        "location": {"type": "STRING"},\<newline>'' @
     ''        "description": {"type": "STRING"},\<newline>'' @
     ''        "start": {"type": "STRING"},\<newline>'' @
     ''        "end": {"type": "STRING"}\<newline>'' @
     ''    }\<newline>'' @
     ''}\<newline>'' @
     ''\<newline>''\<close>

subsection \<open>ISO 8601 date and time, extended format\<close>

text \<open>
  A recogniser written from the standard, not from \<open>isoformat\<close>: four digits of year, a
  hyphen, two digits of month (01 to 12), a hyphen, two digits of day (01 to 31), the
  letter T, two digits of hour (00 to 23), a colon, two digits of minute (00 to 59), a
  colon, two digits of second (00 to 60, the leap second included), and optionally a
  decimal point followed by at least one digit.
\<close>

definition digits_value :: "string \<Rightarrow> nat" where
  "digits_value s = foldl (\<lambda>a c. 10 * a + (of_char c - 48)) 0 s"

definition read_number :: "nat \<Rightarrow> string \<Rightarrow> (nat \<times> string) option" where
  "read_number k s =
     (if k \<le> length s \<and> list_all is_digit (take k s)
      then Some (digits_value (take k s), drop k s) else None)"

definition expect :: "char \<Rightarrow> string \<Rightarrow> string option" where
  "expect c s = (case s of [] \<Rightarrow> None | x # xs \<Rightarrow> if x = c then Some xs else None)"

definition iso8601_datetime :: "string \<Rightarrow> bool" where
  "iso8601_datetime s =
     (case read_number 4 s of None \<Rightarrow> False | Some (y, s1) \<Rightarrow>
     (case expect CHR ''-'' s1 of None \<Rightarrow> False | Some s2 \<Rightarrow>
     (case read_number 2 s2 of None \<Rightarrow> False | Some (mo, s3) \<Rightarrow>
     (case expect CHR ''-'' s3 of None \<Rightarrow> False | Some s4 \<Rightarrow>
     (case read_number 2 s4 of None \<Rightarrow> False | Some (d, s5) \<Rightarrow>
     (case expect CHR ''T'' s5 of None \<Rightarrow> False | Some s6 \<Rightarrow>
     (case read_number 2 s6 of None \<Rightarrow> False | Some (h, s7) \<Rightarrow>
     (case expect CHR '':'' s7 of None \<Rightarrow> False | Some s8 \<Rightarrow>
     (case read_number 2 s8 of None \<Rightarrow> False | Some (mi, s9) \<Rightarrow>
     (case expect CHR '':'' s9 of None \<Rightarrow> False | Some s10 \<Rightarrow>
     (case read_number 2 s10 of None \<Rightarrow> False | Some (se, frac) \<Rightarrow>
        1 \<le> mo \<and> mo \<le> 12 \<and> 1 \<le> d \<and> d \<le> 31 \<and> h \<le> 23 \<and> mi \<le> 59 \<and> se \<le> 60 \<and>
        (frac = [] \<or>
         (case expect CHR ''.'' frac of None \<Rightarrow> False
          | Some ds \<Rightarrow> ds \<noteq> [] \<and> list_all is_digit ds)))))))))))))"

subsection \<open>The required fields of a document\<close>

text \<open>
  The string held by a field of a document, if the field is there and is string-typed; and
  the three required fields, when each is there, string-typed and not empty.
\<close>

definition string_field :: "document \<Rightarrow> string \<Rightarrow> string option" where
  "string_field d name =
     (case map_of (doc_fields d) name of Some (StringValue s) \<Rightarrow> Some s | _ \<Rightarrow> None)"

definition required_fields :: "document \<Rightarrow> (string \<times> string \<times> string) option" where
  "required_fields d =
     (case (string_field d ''image'', string_field d ''type'', string_field d ''ID'') of
        (Some g, Some m, Some i) \<Rightarrow> if g \<noteq> [] \<and> m \<noteq> [] \<and> i \<noteq> [] then Some (g, m, i) else None
      | _ \<Rightarrow> None)"

text \<open>Python's rendering of an optional string: \<^verbatim>\<open>None\<close> or the string.\<close>

fun py_optional :: "string option \<Rightarrow> pyval" where
  "py_optional None = PNone"
| "py_optional (Some s) = PStr s"

text \<open>The world after the three prints of lines 125 to 128.\<close>

definition entered :: "cloud_event \<Rightarrow> world \<Rightarrow> world" where
  "entered ce w =
     w\<lparr>stdout := stdout w @ [LogTriggered (ce_source ce), LogNewValue, LogDocument empty_document]\<rparr>"

text \<open>The one write that lines 161 to 167 make, for a document id without a slash.\<close>

definition the_write :: "string \<Rightarrow> pyval \<Rightarrow> write_call" where
  "the_write i v =
     \<lparr>wr_path = [''state'', i],
      wr_data = [(''processed'', PBool True), (''event'', v)], wr_merge = True\<rparr>"

subsection \<open>A worked scenario\<close>

text \<open>
  An event of the \<^verbatim>\<open>screenshots\<close> trigger; an AI service that answers the image
  \<^verbatim>\<open>gs://bucket/a.png\<close> with a calendar entry as JSON text; a decoder that reads that text; a
  store that accepts every write and already holds a document under \<^verbatim>\<open>state/tx-1\<close>, written
  by the upload flow.
\<close>

definition scenario_event :: cloud_event where
  "scenario_event =
     \<lparr>ce_id = ''e-1'',
      ce_source = ''//firestore.googleapis.com/projects/p/databases/(default)'',
      ce_type = ''google.cloud.firestore.document.v1.written'',
      ce_data = [0x0A, 0x02, 0x0A, 0x00]\<rparr>"

definition scenario_text :: string where
  \<open>scenario_text =
     ''{"summary":"Meeting","location":"Room 1","description":"desc",'' @
     ''"start":"2025-06-01T10:00:00","end":"2025-06-01T11:00:00"}''\<close>

definition scenario_json :: pyval where
  "scenario_json =
     PDict [(''summary'', PStr ''Meeting''), (''location'', PStr ''Room 1''),
            (''description'', PStr ''desc''), (''start'', PStr ''2025-06-01T10:00:00''),
            (''end'', PStr ''2025-06-01T11:00:00'')]"

definition scenario_env :: env where
  "scenario_env =
     \<lparr>environ = Map.empty,
      now = \<lparr>year = 2025, month = 5, day = 20, hour = 9, minute = 30, second = 15,
             microsecond = 250\<rparr>,
      generate_content =
        (\<lambda>r. if req_file_uri r = PStr ''gs://bucket/a.png'' \<and> req_mime_type r = PStr ''image/png''
             then Inr (Some scenario_text) else Inl (OtherException ''ClientError'')),
      json_decode = [scenario_text \<mapsto> scenario_json],
      store_fault = Map.empty\<rparr>"

definition scenario_stored :: "(string \<times> pyval) list" where
  "scenario_stored =
     [(''active'', PBool True), (''image'', PStr ''gs://bucket/a.png''),
      (''processed'', PBool False), (''ID'', PStr ''tx-1'')]"

definition scenario_world :: world where
  "scenario_world =
     \<lparr>stdout = [], ai_calls = [], store_calls = [],
      store = [[''state'', ''tx-1''] \<mapsto> scenario_stored]\<rparr>"

section \<open>Lemmas\<close>

subsection \<open>The handler ends at line 130\<close>

lemma image_processor_eq:
  "image_processor env ce w = (entered ce w, Inl AttributeError)"
  by (simp add: image_processor_def DocumentEventData_def entered_def print_def Let_def)

lemma entered_fields [simp]:
  "store_calls (entered ce w) = store_calls w"
  "store (entered ce w) = store w"
  "ai_calls (entered ce w) = ai_calls w"
  "stdout (entered ce w) = stdout w @ [LogTriggered (ce_source ce), LogNewValue, LogDocument empty_document]"
  by (simp_all add: entered_def)

lemma entered_ce_data [simp]: "entered (ce\<lparr>ce_data := bytes\<rparr>) w = entered ce w"
  by (simp add: entered_def)

subsection \<open>What lines 132 to 171 do with a dictionary\<close>

text \<open>
  None of these lines is ever reached (the lemma above). The lemmas of this subsection
  record what they compute from the dictionary of a document, for a reader who repairs
  lines 123 and 130: the lookups read the string member only, a missing or empty required
  field gives the early return, the prompt is the template with the clock's ISO 8601
  reading, and the write merges \<^verbatim>\<open>processed\<close> and \<^verbatim>\<open>event\<close> and catches
  \<^verbatim>\<open>GoogleAPICallError\<close> alone.
\<close>

lemma parse_PROMPT_TEMPLATE:
  "parse_format None PROMPT_TEMPLATE =
     Inr [Text '' The current date and time is: '', Field ''current_datetime'', Text prompt_tail]"
  by code_simp

lemma format_PROMPT_TEMPLATE:
  "format_py PROMPT_TEMPLATE [(''current_datetime'', ts)] =
     Inr ('' The current date and time is: '' @ ts @ prompt_tail)"
  by (simp add: format_py_def parse_PROMPT_TEMPLATE is_digit_def)

lemma of_char_digit_char: "n < 10 \<Longrightarrow> (of_char (digit_char n) :: nat) = 48 + n"
  by (simp add: digit_char_def)

lemma is_digit_digit_char: "n < 10 \<Longrightarrow> is_digit (digit_char n)"
  by (simp add: is_digit_def of_char_digit_char)

lemma str_nat_digits: "list_all is_digit (str_nat n)"
proof (induction n rule: str_nat.induct)
  case (1 n)
  show ?case
  proof (cases "n < 10")
    case True
    then show ?thesis by (subst str_nat.simps) (simp add: is_digit_digit_char)
  next
    case False
    with 1 show ?thesis by (subst str_nat.simps) (simp add: is_digit_digit_char)
  qed
qed

lemma digits_value_snoc: "digits_value (s @ [c]) = 10 * digits_value s + (of_char c - 48)"
  by (simp add: digits_value_def)

lemma digits_value_str_nat: "digits_value (str_nat n) = n"
proof (induction n rule: str_nat.induct)
  case (1 n)
  show ?case
  proof (cases "n < 10")
    case True
    then show ?thesis
      by (subst str_nat.simps) (simp add: digits_value_def of_char_digit_char)
  next
    case False
    with 1 show ?thesis
      by (subst str_nat.simps) (simp add: digits_value_snoc of_char_digit_char)
  qed
qed

lemma length_str_nat: "0 < k \<Longrightarrow> n < 10 ^ k \<Longrightarrow> length (str_nat n) \<le> k"
proof (induction n arbitrary: k rule: str_nat.induct)
  case (1 n)
  show ?case
  proof (cases "n < 10")
    case True
    with 1(2) show ?thesis by (subst str_nat.simps) simp
  next
    case False
    from 1(2) obtain j where k: "k = Suc j" by (cases k) auto
    from False 1(3) k have "0 < j" by (cases j) auto
    moreover from 1(3) k have "n div 10 < 10 ^ j" by (simp add: less_mult_imp_div_less mult.commute)
    ultimately have "length (str_nat (n div 10)) \<le> j" using 1(1) False by simp
    with False k show ?thesis by (subst str_nat.simps) simp
  qed
qed

lemma digits_value_zeros: "digits_value (replicate j CHR ''0'' @ s) = digits_value s"
proof -
  have "foldl (\<lambda>a c. 10 * a + (of_char c - 48)) 0 (replicate j CHR ''0'') = (0::nat)"
    by (induction j) simp_all
  then show ?thesis by (simp add: digits_value_def)
qed

lemma length_zero_pad: "0 < k \<Longrightarrow> n < 10 ^ k \<Longrightarrow> length (zero_pad k n) = k"
  using length_str_nat [of k n] by (simp add: zero_pad_def)

lemma zero_pad_digits: "list_all is_digit (zero_pad k n)"
  using str_nat_digits [of n] by (auto simp: zero_pad_def list_all_iff is_digit_def)

lemma digits_value_zero_pad: "digits_value (zero_pad k n) = n"
  by (simp add: zero_pad_def digits_value_zeros digits_value_str_nat)

lemma read_number_zero_pad:
  "0 < k \<Longrightarrow> n < 10 ^ k \<Longrightarrow> read_number k (zero_pad k n @ rest) = Some (n, rest)"
  by (simp add: read_number_def length_zero_pad zero_pad_digits digits_value_zero_pad)

lemma str_nat_nonempty: "str_nat n \<noteq> []"
  by (subst str_nat.simps) simp

lemma zero_pad_nonempty: "zero_pad k n \<noteq> []"
  by (simp add: zero_pad_def str_nat_nonempty)

lemma iso8601_isoformat: "datetime_ok d \<Longrightarrow> iso8601_datetime (isoformat d)"
  unfolding datetime_ok_def isoformat_def iso8601_datetime_def
  by (simp add: read_number_zero_pad expect_def zero_pad_digits zero_pad_nonempty)

lemma json_name_not_string: "json_name k \<noteq> ''stringValue''" "''stringValue'' \<noteq> json_name k"
  by (cases k; simp)+

lemma fields_get:
  "py_get (document_to_dict d) ''fields'' (PDict []) =
     Inr (PDict (map (\<lambda>(k, v). (k, value_to_dict v)) (doc_fields d)))"
  by (simp add: document_to_dict_def split: option.splits)

lemma get_string_field_document:
  "get_string_field (document_to_dict d) name = Inr (py_optional (string_field d name))"
proof (cases "map_of (doc_fields d) name")
  case None
  then show ?thesis
    by (simp add: get_string_field_def fields_get map_of_map string_field_def)
next
  case (Some v)
  then show ?thesis
    by (cases v) (simp_all add: get_string_field_def fields_get map_of_map string_field_def json_name_not_string)
qed

lemma extract_fields_document:
  "extract_fields (document_to_dict d) =
     Inr (py_optional (string_field d ''image''), py_optional (string_field d ''type''),
          py_optional (string_field d ''ID''))"
  by (simp add: extract_fields_def get_string_field_document)

lemma truthy_py_optional: "truthy (py_optional x) = (case x of None \<Rightarrow> False | Some s \<Rightarrow> s \<noteq> [])"
  by (cases x) simp_all

lemma process_document_skip:
  assumes "required_fields d = None"
  shows "process_document env (document_to_dict d) w =
     (print (LogMissingFields (document_to_dict d)) w, Inr ())"
  using assms
  by (auto simp: process_document_def extract_fields_document py_all_def truthy_py_optional
      required_fields_def split: option.splits if_splits)

lemma process_document_valid:
  assumes "required_fields d = Some (g, m, i)"
  shows "process_document env (document_to_dict d) w =
     (case request_extraction env (PStr g) (PStr m) w of
        (w4, Inl e) \<Rightarrow> (w4, Inl e)
      | (w4, Inr event_data) \<Rightarrow> write_result env (PStr i) event_data w4)"
  using assms
  by (auto simp: process_document_def extract_fields_document py_all_def truthy_py_optional
      required_fields_def split: option.splits if_splits)

lemma request_extraction_eq:
  "request_extraction env g m w =
     (let req = make_request env g m ('' The current date and time is: '' @ isoformat (now env) @ prompt_tail);
          w1 = w\<lparr>ai_calls := ai_calls w @ [req]\<rparr>
      in case generate_content env req of
           Inl e \<Rightarrow> (w1, Inl e)
         | Inr t \<Rightarrow>
             (case json_loads env t of
                Inl e \<Rightarrow> (print (LogRawResponse t) w1, Inl e)
              | Inr v \<Rightarrow> (print (LogEventData v) (print (LogRawResponse t) w1), Inr v)))"
  by (simp add: request_extraction_def format_PROMPT_TEMPLATE Let_def split: sum.splits)

lemma split_slash_plain: "CHR ''/'' \<notin> set s \<Longrightarrow> split_slash s = [s]"
  by (induction s) auto

lemma write_result_eq:
  assumes "CHR ''/'' \<notin> set i"
  shows "write_result env (PStr i) v w =
     (let w1 = w\<lparr>store_calls := store_calls w @ [the_write i v]\<rparr>
      in case store_fault env (the_write i v) of
           Some e \<Rightarrow>
             if is_GoogleAPICallError e then (print (LogWriteError e) w1, Inr ()) else (w1, Inl e)
         | None \<Rightarrow>
             (print (LogWritten (PStr i))
                (w1\<lparr>store := (store w)([''state'', i] \<mapsto>
                   merge_fields (case store w [''state'', i] of None \<Rightarrow> [] | Some old \<Rightarrow> old)
                     [(''processed'', PBool True), (''event'', v)])\<rparr>), Inr ()))"
  by (simp add: write_result_def try_block_def document_set_def firestore_document_def
      the_write_def Let_def split_slash_plain [OF assms] split: option.splits)

lemma merge_two_fields_frame:
  "k \<noteq> ''processed'' \<Longrightarrow> k \<noteq> ''event'' \<Longrightarrow>
   map_of (merge_fields old [(''processed'', a), (''event'', b)]) k = map_of old k"
  by (simp add: update_conv')

section \<open>The claims\<close>

text \<open>
  C1 says that the handler takes its document from a fresh, empty message, never from the
  event, and that it therefore finds the three fields absent, takes the branch for missing
  fields and returns, with no call to the AI service and no write. The handler does take
  its document from a fresh message, and it makes no call and no write; but it never looks
  a field up and never returns. For every event, environment and world it prints three
  lines and ends with the \<^verbatim>\<open>AttributeError\<close> of line 130, and the payload bytes of the
  event have no part in that.
\<close>

theorem image_processor_ends_at_line_130:
  "image_processor env cloud_event w =
     (w\<lparr>stdout := stdout w @ [LogTriggered (ce_source cloud_event), LogNewValue, LogDocument empty_document]\<rparr>,
      Inl AttributeError) \<and>
   image_processor env (cloud_event\<lparr>ce_data := bytes\<rparr>) w = image_processor env cloud_event w \<and>
   ai_calls (fst (image_processor env cloud_event w)) = ai_calls w \<and>
   store_calls (fst (image_processor env cloud_event w)) = store_calls w \<and>
   store (fst (image_processor env cloud_event w)) = store w"
  by (simp add: image_processor_eq entered_def)

text \<open>
  C2 says that a payload in which \<^verbatim>\<open>image\<close>, \<^verbatim>\<open>type\<close> or \<^verbatim>\<open>ID\<close> is absent or empty is
  printed and that the handler then returns normally. Whatever the event carries, the
  handler does not return normally, and what it has printed by then is the trigger line,
  the heading and the empty message: no line of the branch for missing fields.
\<close>

theorem missing_fields_branch_is_never_taken:
  "snd (image_processor env cloud_event w) \<noteq> Inr () \<and>
   stdout (fst (image_processor env cloud_event w)) =
     stdout w @ [LogTriggered (ce_source cloud_event), LogNewValue, LogDocument empty_document]"
  by (simp add: image_processor_eq)

text \<open>
  C3 says that an AI response that decodes as JSON is followed by a merge of
  \<^verbatim>\<open>{processed: True, event: <decoded value>}\<close> into \<^verbatim>\<open>state/<ID>\<close>. With an AI service
  that answers every request with a text \<open>t\<close> and a decoder that reads \<open>t\<close> as \<open>v\<close>, the
  handler still hands nothing to the store.
\<close>

theorem no_write_follows_a_JSON_answer:
  "store_calls (fst (image_processor
      (env\<lparr>generate_content := \<lambda>r. Inr (Some t), json_decode := [t \<mapsto> v]\<rparr>) cloud_event w)) =
     store_calls w"
  by (simp add: image_processor_eq)

text \<open>
  C4. Every write the handler makes is a merge, and a document that the \<^verbatim>\<open>state\<close>
  collection holds keeps every field other than \<^verbatim>\<open>processed\<close> and \<^verbatim>\<open>event\<close>. This holds
  of the handler because it makes no call to the store at all: after a run the store holds,
  for every document, what it held before (the one write of the source, on line 167, passes
  \<^verbatim>\<open>merge=True\<close> and is never reached).
\<close>

theorem no_stored_field_is_replaced:
  "store_calls (fst (image_processor env cloud_event w)) = store_calls w \<and>
   store (fst (image_processor env cloud_event w)) = store w \<and>
   (store w path = Some old \<longrightarrow>
      (\<exists>new. store (fst (image_processor env cloud_event w)) path = Some new \<and>
         (\<forall>k. k \<noteq> ''processed'' \<and> k \<noteq> ''event'' \<longrightarrow> map_of new k = map_of old k)))"
  by (simp add: image_processor_eq)

theorem no_stored_field_is_replaced_witness:
  "store scenario_world [''state'', ''tx-1''] = Some scenario_stored \<and>
   (\<exists>new. store (fst (image_processor scenario_env scenario_event scenario_world))
            [''state'', ''tx-1''] = Some new \<and>
          map_of new ''active'' = Some (PBool True) \<and>
          map_of new ''image'' = Some (PStr ''gs://bucket/a.png'') \<and>
          map_of new ''ID'' = Some (PStr ''tx-1''))"
proof -
  have old: "store scenario_world [''state'', ''tx-1''] = Some scenario_stored"
    by (simp add: scenario_world_def)
  from no_stored_field_is_replaced
    [of scenario_env scenario_event scenario_world "[''state'', ''tx-1'']" scenario_stored] old
  obtain new where
    new: "store (fst (image_processor scenario_env scenario_event scenario_world))
            [''state'', ''tx-1''] = Some new"
    and kept: "\<forall>k. k \<noteq> ''processed'' \<and> k \<noteq> ''event'' \<longrightarrow> map_of new k = map_of scenario_stored k"
    by blast
  from kept have "map_of new ''active'' = Some (PBool True)"
    and "map_of new ''image'' = Some (PStr ''gs://bucket/a.png'')"
    and "map_of new ''ID'' = Some (PStr ''tx-1'')"
    by (simp_all add: scenario_stored_def)
  with new old show ?thesis by blast
qed

text \<open>
  C5 says that an exception of the write is caught, printed and followed by a normal return
  when it is a \<^verbatim>\<open>GoogleAPICallError\<close>, and propagates otherwise. With a store that answers
  every write with the exception \<open>e\<close>, of either kind, the handler ends with the
  \<^verbatim>\<open>AttributeError\<close> of line 130 and has printed no more than its first three lines: the
  store is never asked.
\<close>

theorem store_exception_is_never_met:
  "snd (image_processor (env\<lparr>store_fault := \<lambda>c. Some e\<rparr>) cloud_event w) = Inl AttributeError \<and>
   stdout (fst (image_processor (env\<lparr>store_fault := \<lambda>c. Some e\<rparr>) cloud_event w)) =
     stdout w @ [LogTriggered (ce_source cloud_event), LogNewValue, LogDocument empty_document] \<and>
   store_calls (fst (image_processor (env\<lparr>store_fault := \<lambda>c. Some e\<rparr>) cloud_event w)) =
     store_calls w"
  by (simp add: image_processor_eq)

text \<open>
  C6 says that a response text that is not JSON makes \<^verbatim>\<open>json.loads\<close> raise and that this
  exception leaves the handler. With an AI service that answers every request with a text
  and a decoder that reads no text at all, the exception that leaves the handler is the
  \<^verbatim>\<open>AttributeError\<close> of line 130: the service is not called and nothing is decoded. (The
  run does end abnormally and without a write, as the claim also says.)
\<close>

theorem JSONDecodeError_is_never_raised:
  "snd (image_processor
      (env\<lparr>generate_content := \<lambda>r. Inr (Some t), json_decode := Map.empty\<rparr>) cloud_event w) =
     Inl AttributeError \<and>
   Inl AttributeError \<noteq> (Inl JSONDecodeError :: exn + unit) \<and>
   ai_calls (fst (image_processor
      (env\<lparr>generate_content := \<lambda>r. Inr (Some t), json_decode := Map.empty\<rparr>) cloud_event w)) =
     ai_calls w"
  by (simp add: image_processor_eq)

text \<open>
  C7 says that the instruction text submitted to the AI service carries the clock's reading
  as an ISO 8601 timestamp. Whatever the clock reads, the handler submits nothing: the list
  of requests made is the one it started with.
\<close>

theorem no_prompt_is_submitted:
  "ai_calls (fst (image_processor (env\<lparr>now := clock\<rparr>) cloud_event w)) = ai_calls w"
  by (simp add: image_processor_eq)

text \<open>
  C8 says that the \<^verbatim>\<open>event\<close> entry handed to the store is the decoded object, for example
  the calendar entry of the scenario. With an AI service that answers with that very text
  and a decoder that reads it, no entry is handed to the store and the store holds what it
  held: a document without an \<^verbatim>\<open>event\<close> field stays without one.
\<close>

theorem no_event_is_stored:
  "store (fst (image_processor
      (env\<lparr>generate_content := \<lambda>r. Inr (Some scenario_text),
           json_decode := [scenario_text \<mapsto> scenario_json]\<rparr>) cloud_event w)) = store w \<and>
   map wr_data (store_calls (fst (image_processor
      (env\<lparr>generate_content := \<lambda>r. Inr (Some scenario_text),
           json_decode := [scenario_text \<mapsto> scenario_json]\<rparr>) cloud_event w))) =
     map wr_data (store_calls w)"
  by (simp add: image_processor_eq)

text \<open>
  C9 says that the decoder reads the \<^verbatim>\<open>stringValue\<close> member of each required field and
  treats a field of another type as absent, which leads to the early return. The decoder
  works on the dictionary of line 130, and line 130 yields none: for every document the
  conversion of the proto-plus wrapper raises, so the lookups of lines 132 to 134 are
  applied to nothing and the handler does not return early; it ends with that exception.
\<close>

theorem decoder_never_gets_a_dictionary:
  "MessageToDict (ProtoPlus d) = Inl AttributeError \<and>
   fst (image_processor env cloud_event w) =
     w\<lparr>stdout := stdout w @ [LogTriggered (ce_source cloud_event), LogNewValue, LogDocument empty_document]\<rparr> \<and>
   snd (image_processor env cloud_event w) = Inl AttributeError"
  by (simp add: image_processor_eq entered_def)

text \<open>
  C10. The location of the AI client is the value of the environment variable
  \<^verbatim>\<open>LOCATION\<close>, and \<^verbatim>\<open>europe-west1\<close> when the variable is unset or empty; the handler sends
  its requests through that client.
\<close>

theorem location_defaults_to_europe_west1:
  "location (client os_environ) =
     (case os_environ ''LOCATION'' of
        None \<Rightarrow> ''europe-west1''
      | Some v \<Rightarrow> if v = [] then ''europe-west1'' else v) \<and>
   vertexai (client os_environ) \<and>
   req_client (make_request env gcs_url mime_type prompt) = client (environ env)"
  by (simp add: client_def LOCATION_def make_request_def split: option.splits)

theorem location_defaults_to_europe_west1_witness:
  "location (client Map.empty) = ''europe-west1'' \<and>
   location (client [''LOCATION'' \<mapsto> '''']) = ''europe-west1'' \<and>
   location (client [''LOCATION'' \<mapsto> ''us-central1'']) = ''us-central1''"
  using location_defaults_to_europe_west1 [of Map.empty]
    location_defaults_to_europe_west1 [of "[''LOCATION'' \<mapsto> '''']"]
    location_defaults_to_europe_west1 [of "[''LOCATION'' \<mapsto> ''us-central1'']"]
  by simp

end
